theory Spec2Isabelle
  imports Complex_Main
begin

section \<open>Dose volume histograms: a model of \<^verbatim>\<open>dicompylercore/dvh.py\<close>\<close>

text \<open>
  Numbers. The source computes with numpy arrays of machine numbers. The model uses
  exact rationals: every array is a \<^typ>\<open>rat list\<close>, every scalar a \<^typ>\<open>rat\<close>.
  Rounding is not modelled in these definitions; the conversions and lookups are given a
  second time with the arithmetic of the machine as a parameter, for the statement that
  depends on it. Where numpy would produce \<^verbatim>\<open>inf\<close> or \<^verbatim>\<open>nan\<close> (a division by zero,
  which numpy reports as a warning and not as an exception) the model returns the outcome
  \<open>NonFinite\<close>, so that no statement below speaks about such values.

  Strings. A \<^typ>\<open>char\<close> stands for a code point below 256.
\<close>

subsection \<open>Errors\<close>

text \<open>
  The two \<^verbatim>\<open>AttributeError\<close>s of the source differ in their message only:
  \<^verbatim>\<open>'DVH' has no defined prescription dose.\<close> and
  \<^verbatim>\<open>'DVH' has no attribute '<name>'\<close>.
\<close>

datatype attr_msg = NoPrescriptionDose | NoAttribute string

datatype error =
    AttributeError attr_msg
  | IndexError
  | ValueError
  | TypeError
  | NonFinite

definition bindE :: "error + 'a \<Rightarrow> ('a \<Rightarrow> error + 'b) \<Rightarrow> error + 'b" where
  "bindE m f = (case m of Inl e \<Rightarrow> Inl e | Inr x \<Rightarrow> f x)"

subsection \<open>Strings\<close>

definition lower_char :: "char \<Rightarrow> char" where
  \<comment> \<open>\<^verbatim>\<open>str.lower\<close> on one code point below 256: A-Z, and the Latin-1 capitals
      192-222 without the multiplication sign 215.\<close>
  "lower_char c =
     (let n = (of_char c :: nat)
      in if (65 \<le> n \<and> n \<le> 90) \<or> (192 \<le> n \<and> n \<le> 222 \<and> n \<noteq> 215)
         then char_of (n + 32) else c)"

definition lower :: "string \<Rightarrow> string" where
  "lower s = map lower_char s"

definition is_space :: "char \<Rightarrow> bool" where
  \<comment> \<open>the class \<^verbatim>\<open>\s\<close> of a str pattern, below 256\<close>
  "is_space c =
     (let n = (of_char c :: nat)
      in (9 \<le> n \<and> n \<le> 13) \<or> (28 \<le> n \<and> n \<le> 32) \<or> n = 133 \<or> n = 160)"

definition is_digit :: "char \<Rightarrow> bool" where
  \<comment> \<open>the class \<^verbatim>\<open>\d\<close> of a str pattern, below 256\<close>
  "is_digit c = (let n = (of_char c :: nat) in 48 \<le> n \<and> n \<le> 57)"

subsection \<open>The numpy operations the class uses\<close>

definition np_diff :: "rat list \<Rightarrow> rat list" where
  \<comment> \<open>\<^verbatim>\<open>np.diff(a)\<close>: \<^verbatim>\<open>a[1:] - a[:-1]\<close>\<close>
  "np_diff a = map2 (\<lambda>x y. x - y) (tl a) (butlast a)"

fun cumsum_from :: "rat \<Rightarrow> rat list \<Rightarrow> rat list" where
  "cumsum_from acc [] = []"
| "cumsum_from acc (x # xs) = (acc + x) # cumsum_from (acc + x) xs"

definition cumsum :: "rat list \<Rightarrow> rat list" where
  "cumsum a = cumsum_from 0 a"

definition broadcast2 :: "('a \<Rightarrow> 'b \<Rightarrow> 'c) \<Rightarrow> 'a list \<Rightarrow> 'b list \<Rightarrow> error + 'c list" where
  \<comment> \<open>an elementwise operation on two one-dimensional arrays: equal lengths, or one
      of them of length one; any other pair of shapes raises \<^verbatim>\<open>ValueError\<close>\<close>
  "broadcast2 f a b =
     (if length a = length b then Inr (map2 f a b)
      else if length a = 1 then Inr (map (f (hd a)) b)
      else if length b = 1 then Inr (map (\<lambda>x. f x (hd b)) a)
      else Inl ValueError)"

definition isclose :: "rat \<Rightarrow> rat \<Rightarrow> bool" where
  \<comment> \<open>\<^verbatim>\<open>np.isclose\<close> with its defaults \<^verbatim>\<open>rtol=1e-05, atol=1e-08\<close>\<close>
  "isclose x y \<longleftrightarrow> \<bar>x - y\<bar> \<le> 1 / 100000000 + (1 / 100000) * \<bar>y\<bar>"


definition np_max :: "rat list \<Rightarrow> error + rat" where
  \<comment> \<open>\<^verbatim>\<open>a.max()\<close>; a zero-size array raises \<^verbatim>\<open>ValueError\<close>\<close>
  "np_max a = (case a of [] \<Rightarrow> Inl ValueError | x # xs \<Rightarrow> Inr (fold max xs x))"

definition np_argmin :: "rat list \<Rightarrow> error + nat" where
  \<comment> \<open>\<^verbatim>\<open>np.argmin(a)\<close>: the index of the first occurrence of the minimum\<close>
  "np_argmin a =
     (case a of [] \<Rightarrow> Inl ValueError
      | x # xs \<Rightarrow> Inr (length (takeWhile (\<lambda>y. y \<noteq> fold min xs x) a)))"

subsection \<open>The class \<^verbatim>\<open>DVH\<close>\<close>

record DVH =
  counts :: "rat list"
  bins :: "rat list"
  dvh_type :: string
  dose_units :: string
  volume_units :: string
  rx_dose :: "rat option"
  name :: "string option"

definition abs_dose_units :: string where "abs_dose_units = ''gy''"
definition abs_volume_units :: string where "abs_volume_units = ''cm3''"
definition relative_units :: string where "relative_units = ''%''"

definition DVH_init ::
  "rat list \<Rightarrow> rat list \<Rightarrow> string \<Rightarrow> string \<Rightarrow> string \<Rightarrow> rat option \<Rightarrow> string option
   \<Rightarrow> error + DVH" where
  \<comment> \<open>\<^verbatim>\<open>DVH.__init__\<close>; \<^verbatim>\<open>bins[0]\<close> raises \<^verbatim>\<open>IndexError\<close> on an empty sequence\<close>
  "DVH_init cs bs ty du vu rx nm =
     (case bs of
        [] \<Rightarrow> Inl IndexError
      | b0 # _ \<Rightarrow>
          Inr \<lparr>counts = cs,
               bins = (if b0 = 0 then bs else [0] @ bs),
               dvh_type = lower ty,
               dose_units = lower du,
               volume_units = lower vu,
               rx_dose = rx,
               name = nm\<rparr>)"

definition from_dict :: "DVH \<Rightarrow> error + DVH" where
  \<comment> \<open>\<^verbatim>\<open>DVH(**d)\<close> for a dictionary \<open>d\<close> with the seven attributes as keys; the
      source builds \<open>d\<close> as \<^verbatim>\<open>dict(self.__dict__, key=value, ...)\<close>, which the model
      writes as a record update of \<open>self\<close>\<close>
  "from_dict d =
     DVH_init (counts d) (bins d) (dvh_type d) (dose_units d) (volume_units d)
       (rx_dose d) (name d)"


definition bincenters :: "DVH \<Rightarrow> rat list" where
  "bincenters self = map (\<lambda>s. (1 / 2) * s) (map2 (+) (tl (bins self)) (butlast (bins self)))"

definition differential :: "DVH \<Rightarrow> error + DVH" where
  "differential self =
     (if dvh_type self = ''differential'' then Inr self
      else from_dict (self\<lparr>
             counts := map abs (map (\<lambda>x. x * (- 1)) (np_diff (counts self))) @ [0],
             dvh_type := ''differential''\<rparr>))"

definition cumulative :: "DVH \<Rightarrow> error + DVH" where
  "cumulative self =
     (if dvh_type self = ''cumulative'' then Inr self
      else from_dict (self\<lparr>
             counts := rev (cumsum (rev (counts self))),
             dvh_type := ''cumulative''\<rparr>))"

definition mean :: "DVH \<Rightarrow> error + rat" where
  \<comment> \<open>\<^verbatim>\<open>DVH.mean\<close>; a zero sum of counts makes numpy return \<^verbatim>\<open>nan\<close> or \<^verbatim>\<open>inf\<close>\<close>
  "mean self =
     bindE (differential self) (\<lambda>diff.
     bindE (broadcast2 (*) (bincenters diff) (counts diff)) (\<lambda>prod.
       if sum_list (counts diff) = 0 then Inl NonFinite
       else Inr (sum_list prod / sum_list (counts diff))))"

definition volume :: "DVH \<Rightarrow> error + rat" where
  "volume self = bindE (differential self) (\<lambda>diff. Inr (sum_list (counts diff)))"

definition truthy :: "rat option \<Rightarrow> bool" where
  \<comment> \<open>the truth value of \<^verbatim>\<open>rx_dose\<close>: \<^verbatim>\<open>None\<close> and zero are false\<close>
  "truthy x = (case x of None \<Rightarrow> False | Some r \<Rightarrow> r \<noteq> 0)"

definition absolute_dose :: "DVH \<Rightarrow> rat option \<Rightarrow> string \<Rightarrow> error + DVH" where
  \<comment> \<open>\<^verbatim>\<open>DVH.absolute_dose(rx_dose, dose_units)\<close>. The last case is never reached:
      there both \<^verbatim>\<open>rx_dose\<close>s would be \<^verbatim>\<open>None\<close>, and the guard has raised.\<close>
  "absolute_dose self rx du =
     (if dose_units self = du then Inr self
      else if \<not> truthy (rx_dose self) \<and> \<not> truthy rx
      then Inl (AttributeError NoPrescriptionDose)
      else (case (if rx_dose self = None then rx else rx_dose self) of
              Some rxdose \<Rightarrow>
                from_dict (self\<lparr>
                  bins := map (\<lambda>b. b * rxdose / 100) (bins self),
                  dose_units := du\<rparr>)
            | None \<Rightarrow> Inl TypeError))"

definition relative_dose :: "DVH \<Rightarrow> rat option \<Rightarrow> error + DVH" where
  \<comment> \<open>\<^verbatim>\<open>DVH.relative_dose(rx_dose)\<close>; a division by \<^verbatim>\<open>rxdose = 0\<close> gives
      \<^verbatim>\<open>nan\<close> and \<^verbatim>\<open>inf\<close> edges\<close>
  "relative_dose self rx =
     (if dose_units self = relative_units then Inr self
      else if \<not> truthy (rx_dose self) \<and> \<not> truthy rx
      then Inl (AttributeError NoPrescriptionDose)
      else (case (if rx_dose self = None then rx else rx_dose self) of
              Some rxdose \<Rightarrow>
                if rxdose = 0 then Inl NonFinite
                else from_dict (self\<lparr>
                       bins := map (\<lambda>b. 100 * b / rxdose) (bins self),
                       dose_units := relative_units\<rparr>)
            | None \<Rightarrow> Inl TypeError))"

definition absolute_volume :: "DVH \<Rightarrow> rat \<Rightarrow> string \<Rightarrow> error + DVH" where
  "absolute_volume self vol vu =
     (if volume_units self = vu then Inr self
      else from_dict (self\<lparr>
             counts := map (\<lambda>c. vol * c / 100) (counts self),
             volume_units := vu\<rparr>))"

function relative_volume :: "DVH \<Rightarrow> error + DVH" where
  "relative_volume self =
     (if volume_units self = relative_units then Inr self
      else if dvh_type self = ''differential''
      then (case cumulative self of
              Inl e \<Rightarrow> Inl e
            | Inr c \<Rightarrow> bindE (relative_volume c) differential)
      else bindE (np_max (counts self)) (\<lambda>m.
             if m = 0 then Inl NonFinite
             else from_dict (self\<lparr>
                    counts := map (\<lambda>c. 100 * c / m) (counts self),
                    volume_units := relative_units\<rparr>)))"
  by pat_completeness auto
termination
proof (relation "measure (\<lambda>self. if dvh_type self = ''differential'' then 1 else 0)")
  show "wf (measure (\<lambda>self. if dvh_type self = ''differential'' then 1 else (0::nat)))"
    by simp
next
  fix self c
  assume "dvh_type self = ''differential''" and "cumulative self = Inr c"
  then have "dvh_type c = lower ''cumulative''"
    by (auto simp: cumulative_def from_dict_def DVH_init_def split: list.splits)
  then have "dvh_type c \<noteq> ''differential''"
    by (simp add: lower_def lower_char_def)
  then show "(c, self) \<in> measure (\<lambda>self. if dvh_type self = ''differential'' then 1 else 0)"
    using \<open>dvh_type self = ''differential''\<close> by simp
qed

declare relative_volume.simps [simp del]

subsection \<open>The class \<^verbatim>\<open>DVHValue\<close> and the constraint lookups\<close>

record DVHValue =
  val :: rat
  units :: string

definition str_truthy :: "string option \<Rightarrow> bool" where
  \<comment> \<open>the truth value of an optional string: \<^verbatim>\<open>None\<close> and the empty string are false\<close>
  "str_truthy x = (case x of None \<Rightarrow> False | Some s \<Rightarrow> s \<noteq> [])"

definition dose_bins :: "DVH \<Rightarrow> string option \<Rightarrow> error + rat list" where
  \<comment> \<open>the local variable \<^verbatim>\<open>dose_bins\<close> of \<^verbatim>\<open>volume_constraint\<close>\<close>
  "dose_bins self du =
     (if \<not> str_truthy du
      then bindE (relative_dose self (Some 14)) (\<lambda>d. Inr (bins d))
      else bindE (absolute_dose self (Some 14) abs_dose_units) (\<lambda>d. Inr (bins d)))"

definition volume_constraint :: "DVH \<Rightarrow> rat \<Rightarrow> string option \<Rightarrow> error + DVHValue" where
  "volume_constraint self dose du =
     bindE (dose_bins self du) (\<lambda>dbs.
     bindE (np_argmin (map (\<lambda>b. \<bar>b - dose\<bar>) dbs)) (\<lambda>index.
       if index \<ge> length (counts self)
       then Inr \<lparr>val = 0, units = volume_units self\<rparr>
       else Inr \<lparr>val = counts self ! index, units = volume_units self\<rparr>))"

definition volume_counts :: "DVH \<Rightarrow> string option \<Rightarrow> error + rat list" where
  \<comment> \<open>the local variable \<^verbatim>\<open>volume_counts\<close> of \<^verbatim>\<open>dose_constraint\<close>\<close>
  "volume_counts self vu =
     (if \<not> str_truthy vu
      then bindE (relative_volume self) (\<lambda>d. Inr (counts d))
      else bindE (absolute_volume self 14 abs_volume_units) (\<lambda>d. Inr (counts d)))"

definition py_nth :: "'a list \<Rightarrow> nat \<Rightarrow> error + 'a" where
  \<comment> \<open>indexing with a non-negative index\<close>
  "py_nth xs i = (if i < length xs then Inr (xs ! i) else Inl IndexError)"

definition dose_constraint :: "DVH \<Rightarrow> rat \<Rightarrow> string option \<Rightarrow> error + DVHValue" where
  "dose_constraint self vol vu =
     bindE (volume_counts self vu) (\<lambda>vcs.
     bindE (np_max vcs) (\<lambda>m.
       if vol > m then Inr \<lparr>val = 0, units = dose_units self\<rparr>
       else bindE (np_argmin (map (\<lambda>c. \<bar>c - vol\<bar>) vcs)) (\<lambda>index.
            bindE (py_nth (bins self) index) (\<lambda>b.
              Inr \<lparr>val = b, units = dose_units self\<rparr>))))"

subsection \<open>Resolving a statistic name: \<^verbatim>\<open>DVH.__getattr__\<close>\<close>

text \<open>
  The pattern is
  \<^verbatim>\<open>(\S+)?(D|V){1}(\d+[.]?\d*)(gy|cc)?(?!\S+)\<close>, compiled with
  \<^verbatim>\<open>re.IGNORECASE\<close> and applied with \<^verbatim>\<open>re.match\<close>, which anchors the match at
  the start of the name and not at its end. Each piece of the pattern is a function from
  the rest of the name to the list of its possible matches (the matched text and what
  follows it), in the order in which the backtracking matcher tries them: a greedy
  repetition tries the longest text first, an optional piece tries its presence first.
  The match \<^verbatim>\<open>re.match\<close> returns is the first of the list.
\<close>

definition re_greedy :: "(char \<Rightarrow> bool) \<Rightarrow> nat \<Rightarrow> string \<Rightarrow> (string \<times> string) list" where
  \<comment> \<open>a character class repeated at least \<open>m\<close> times, greedily\<close>
  "re_greedy cls m s =
     map (\<lambda>n. (take n s, drop n s)) (rev [m ..< Suc (length (takeWhile cls s))])"

definition re_optional ::
  "(string \<Rightarrow> (string \<times> string) list) \<Rightarrow> string \<Rightarrow> (string option \<times> string) list" where
  \<comment> \<open>\<^verbatim>\<open>p?\<close>; an absent group is \<^verbatim>\<open>None\<close>\<close>
  "re_optional p s = map (\<lambda>(g, r). (Some g, r)) (p s) @ [(None, s)]"

definition re_DV :: "string \<Rightarrow> (string \<times> string) list" where
  \<comment> \<open>\<^verbatim>\<open>(D|V){1}\<close>, ignoring case\<close>
  "re_DV s =
     (case s of
        [] \<Rightarrow> []
      | c # r \<Rightarrow>
          if lower_char c = CHR ''d'' \<or> lower_char c = CHR ''v'' then [([c], r)] else [])"

definition re_dot :: "string \<Rightarrow> (string \<times> string) list" where
  \<comment> \<open>\<^verbatim>\<open>[.]\<close>\<close>
  "re_dot s = (case s of [] \<Rightarrow> [] | c # r \<Rightarrow> if c = CHR ''.'' then [([c], r)] else [])"

definition re_unit :: "string \<Rightarrow> (string \<times> string) list" where
  \<comment> \<open>\<^verbatim>\<open>(gy|cc)\<close>, ignoring case\<close>
  "re_unit s =
     (if 2 \<le> length s \<and> (lower (take 2 s) = ''gy'' \<or> lower (take 2 s) = ''cc'')
      then [(take 2 s, drop 2 s)] else [])"

definition re_lookahead :: "string \<Rightarrow> bool" where
  \<comment> \<open>\<^verbatim>\<open>(?!\S+)\<close>: what follows does not start with a character that is not
      white space\<close>
  "re_lookahead r = (case r of [] \<Rightarrow> True | c # _ \<Rightarrow> is_space c)"

definition opt_text :: "string option \<Rightarrow> string" where
  "opt_text g = (case g of None \<Rightarrow> [] | Some t \<Rightarrow> t)"

definition re_matches ::
  "string \<Rightarrow> (string option \<times> string \<times> string \<times> string option) list" where
  \<comment> \<open>all matches of the pattern at the start of the name, as their four groups\<close>
  "re_matches nm =
     [(g1, g2, n1 @ opt_text dt @ n2, g4).
        (g1, r1) \<leftarrow> re_optional (re_greedy (\<lambda>c. \<not> is_space c) 1) nm,
        (g2, r2) \<leftarrow> re_DV r1,
        (n1, r3) \<leftarrow> re_greedy is_digit 1 r2,
        (dt, r4) \<leftarrow> re_optional re_dot r3,
        (n2, r5) \<leftarrow> re_greedy is_digit 0 r4,
        (g4, r6) \<leftarrow> re_optional re_unit r5,
        re_lookahead r6]"

definition re_match ::
  "string \<Rightarrow> (string option \<times> string \<times> string \<times> string option) option" where
  "re_match nm = (case re_matches nm of [] \<Rightarrow> None | m # _ \<Rightarrow> Some m)"

definition digit_val :: "char \<Rightarrow> int" where
  "digit_val c = int (of_char c) - 48"

definition py_int :: "string \<Rightarrow> error + int" where
  \<comment> \<open>\<^verbatim>\<open>int(s)\<close> for the texts the third group can hold, digits with at most one
      point among them: those without a point are read in base ten, the others raise
      \<^verbatim>\<open>ValueError\<close>\<close>
  "py_int s =
     (if s \<noteq> [] \<and> list_all is_digit s
      then Inr (foldl (\<lambda>a c. 10 * a + digit_val c) 0 s)
      else Inl ValueError)"

definition getattr :: "DVH \<Rightarrow> string \<Rightarrow> error + DVHValue option" where
  \<comment> \<open>\<^verbatim>\<open>DVH.__getattr__(name)\<close>; a function body that ends without
      \<^verbatim>\<open>return\<close> gives \<^verbatim>\<open>None\<close>\<close>
  "getattr self nm =
     (case re_match nm of
        None \<Rightarrow> Inl (AttributeError (NoAttribute nm))
      | Some (g1, g2, g3, g4) \<Rightarrow>
          if g1 \<noteq> None then Inl (AttributeError (NoAttribute nm))
          else
            (let c = map lower
                       (filter (\<lambda>x. x \<noteq> [])
                          (concat (map (\<lambda>g. case g of None \<Rightarrow> [] | Some x \<Rightarrow> [x])
                             [g1, Some g2, Some g3, g4])))
             in bindE (py_nth c 0) (\<lambda>k.
                  if k = ''v'' then
                    (if length c = 2
                     then bindE (py_nth c 1) (\<lambda>t. bindE (py_int t) (\<lambda>n.
                            bindE (volume_constraint self (of_int n) None) (\<lambda>v.
                              Inr (Some v))))
                     else bindE (py_nth c 1) (\<lambda>t. bindE (py_int t) (\<lambda>n.
                          bindE (py_nth c 2) (\<lambda>u.
                            bindE (volume_constraint self (of_int n) (Some u)) (\<lambda>v.
                              Inr (Some v))))))
                  else if k = ''d'' then
                    (if length c = 2
                     then bindE (py_nth c 1) (\<lambda>t. bindE (py_int t) (\<lambda>n.
                            bindE (dose_constraint self (of_int n) None) (\<lambda>v.
                              Inr (Some v))))
                     else bindE (py_nth c 1) (\<lambda>t. bindE (py_int t) (\<lambda>n.
                          bindE (py_nth c 2) (\<lambda>u.
                            bindE (dose_constraint self (of_int n) (Some u)) (\<lambda>v.
                              Inr (Some v))))))
                  else Inr None)))"

subsection \<open>The conversions and the lookups in machine arithmetic\<close>

text \<open>
  Which edge is the nearest to a dose, and whether a volume exceeds a maximum, is decided
  on the numbers the machine computes. The definitions of this subsection are those of
  the conversions and lookups above with the arithmetic as a parameter: an \<open>arith\<close> gives,
  for each arithmetic operation of the source, the function the machine computes on the
  elements of an array (for binary64 the exact result rounded, for int64 the exact result
  wrapped). Comparisons, the maximum and \<^verbatim>\<open>argmin\<close> are exact. As above, results are
  taken to be finite, and a division by zero is the outcome \<open>NonFinite\<close>.
\<close>

record arith =
  a_mul :: "rat \<Rightarrow> rat \<Rightarrow> rat"
  a_div :: "rat \<Rightarrow> rat \<Rightarrow> rat"
  a_add :: "rat \<Rightarrow> rat \<Rightarrow> rat"
  a_sub :: "rat \<Rightarrow> rat \<Rightarrow> rat"
  a_abs :: "rat \<Rightarrow> rat"
  a_fabs :: "rat \<Rightarrow> rat"

definition exact :: arith where
  \<comment> \<open>the arithmetic of the definitions above\<close>
  "exact = \<lparr>a_mul = (*), a_div = (/), a_add = (+), a_sub = (-), a_abs = abs, a_fabs = abs\<rparr>"

definition rounded :: "(rat \<Rightarrow> rat) \<Rightarrow> arith" where
  \<comment> \<open>every operation gives its exact result rounded by \<open>rnd\<close>; the absolute values
      are exact\<close>
  "rounded rnd =
     \<lparr>a_mul = (\<lambda>x y. rnd (x * y)), a_div = (\<lambda>x y. rnd (x / y)),
      a_add = (\<lambda>x y. rnd (x + y)), a_sub = (\<lambda>x y. rnd (x - y)),
      a_abs = abs, a_fabs = abs\<rparr>"

definition round_to :: "rat \<Rightarrow> rat \<Rightarrow> rat" where
  \<comment> \<open>rounding to the nearest multiple of a unit \<open>u\<close>\<close>
  "round_to u x = u * of_int (round (x / u))"

definition absolute_dose_ar :: "arith \<Rightarrow> DVH \<Rightarrow> rat option \<Rightarrow> string \<Rightarrow> error + DVH" where
  "absolute_dose_ar A self rx du =
     (if dose_units self = du then Inr self
      else if \<not> truthy (rx_dose self) \<and> \<not> truthy rx
      then Inl (AttributeError NoPrescriptionDose)
      else (case (if rx_dose self = None then rx else rx_dose self) of
              Some rxdose \<Rightarrow>
                from_dict (self\<lparr>
                  bins := map (\<lambda>b. a_div A (a_mul A b rxdose) 100) (bins self),
                  dose_units := du\<rparr>)
            | None \<Rightarrow> Inl TypeError))"

definition relative_dose_ar :: "arith \<Rightarrow> DVH \<Rightarrow> rat option \<Rightarrow> error + DVH" where
  "relative_dose_ar A self rx =
     (if dose_units self = relative_units then Inr self
      else if \<not> truthy (rx_dose self) \<and> \<not> truthy rx
      then Inl (AttributeError NoPrescriptionDose)
      else (case (if rx_dose self = None then rx else rx_dose self) of
              Some rxdose \<Rightarrow>
                if rxdose = 0 then Inl NonFinite
                else from_dict (self\<lparr>
                       bins := map (\<lambda>b. a_div A (a_mul A 100 b) rxdose) (bins self),
                       dose_units := relative_units\<rparr>)
            | None \<Rightarrow> Inl TypeError))"

definition absolute_volume_ar :: "arith \<Rightarrow> DVH \<Rightarrow> rat \<Rightarrow> string \<Rightarrow> error + DVH" where
  "absolute_volume_ar A self vol vu =
     (if volume_units self = vu then Inr self
      else from_dict (self\<lparr>
             counts := map (\<lambda>c. a_div A (a_mul A vol c) 100) (counts self),
             volume_units := vu\<rparr>))"

definition np_diff_ar :: "arith \<Rightarrow> rat list \<Rightarrow> rat list" where
  "np_diff_ar A a = map2 (a_sub A) (tl a) (butlast a)"

definition differential_ar :: "arith \<Rightarrow> DVH \<Rightarrow> error + DVH" where
  "differential_ar A self =
     (if dvh_type self = ''differential'' then Inr self
      else from_dict (self\<lparr>
             counts := map (a_abs A) (map (\<lambda>x. a_mul A x (- 1)) (np_diff_ar A (counts self)))
                       @ [0],
             dvh_type := ''differential''\<rparr>))"

fun cumsum_from_ar :: "arith \<Rightarrow> rat \<Rightarrow> rat list \<Rightarrow> rat list" where
  "cumsum_from_ar A acc [] = []"
| "cumsum_from_ar A acc (x # xs) = a_add A acc x # cumsum_from_ar A (a_add A acc x) xs"

definition cumsum_ar :: "arith \<Rightarrow> rat list \<Rightarrow> rat list" where
  \<comment> \<open>the running sum; its first element is the first element of the array\<close>
  "cumsum_ar A a = (case a of [] \<Rightarrow> [] | x # xs \<Rightarrow> x # cumsum_from_ar A x xs)"

definition cumulative_ar :: "arith \<Rightarrow> DVH \<Rightarrow> error + DVH" where
  "cumulative_ar A self =
     (if dvh_type self = ''cumulative'' then Inr self
      else from_dict (self\<lparr>
             counts := rev (cumsum_ar A (rev (counts self))),
             dvh_type := ''cumulative''\<rparr>))"

function relative_volume_ar :: "arith \<Rightarrow> DVH \<Rightarrow> error + DVH" where
  "relative_volume_ar A self =
     (if volume_units self = relative_units then Inr self
      else if dvh_type self = ''differential''
      then (case cumulative_ar A self of
              Inl e \<Rightarrow> Inl e
            | Inr c \<Rightarrow> bindE (relative_volume_ar A c) (differential_ar A))
      else bindE (np_max (counts self)) (\<lambda>m.
             if m = 0 then Inl NonFinite
             else from_dict (self\<lparr>
                    counts := map (\<lambda>c. a_div A (a_mul A 100 c) m) (counts self),
                    volume_units := relative_units\<rparr>)))"
  by pat_completeness auto
termination
proof (relation "measure (\<lambda>(A, self). if dvh_type self = ''differential'' then 1 else 0)")
  show "wf (measure (\<lambda>(A :: arith, self).
               if dvh_type self = ''differential'' then 1 else (0::nat)))"
    by simp
next
  fix A :: arith and self c
  assume "dvh_type self = ''differential''" and "cumulative_ar A self = Inr c"
  then have "dvh_type c = lower ''cumulative''"
    by (auto simp: cumulative_ar_def from_dict_def DVH_init_def split: list.splits)
  then have "dvh_type c \<noteq> ''differential''"
    by (simp add: lower_def lower_char_def)
  then show "((A, c), (A, self))
             \<in> measure (\<lambda>(A, self). if dvh_type self = ''differential'' then 1 else 0)"
    using \<open>dvh_type self = ''differential''\<close> by simp
qed

declare relative_volume_ar.simps [simp del]

definition dose_bins_ar :: "arith \<Rightarrow> DVH \<Rightarrow> string option \<Rightarrow> error + rat list" where
  "dose_bins_ar A self du =
     (if \<not> str_truthy du
      then bindE (relative_dose_ar A self (Some 14)) (\<lambda>d. Inr (bins d))
      else bindE (absolute_dose_ar A self (Some 14) abs_dose_units) (\<lambda>d. Inr (bins d)))"

definition distance :: "arith \<Rightarrow> rat \<Rightarrow> rat \<Rightarrow> rat" where
  \<comment> \<open>one element of \<^verbatim>\<open>np.fabs(a - x)\<close>\<close>
  "distance A x e = a_fabs A (a_sub A e x)"

definition volume_constraint_ar ::
  "arith \<Rightarrow> DVH \<Rightarrow> rat \<Rightarrow> string option \<Rightarrow> error + DVHValue" where
  "volume_constraint_ar A self dose du =
     bindE (dose_bins_ar A self du) (\<lambda>dbs.
     bindE (np_argmin (map (distance A dose) dbs)) (\<lambda>index.
       if index \<ge> length (counts self)
       then Inr \<lparr>val = 0, units = volume_units self\<rparr>
       else Inr \<lparr>val = counts self ! index, units = volume_units self\<rparr>))"

definition volume_counts_ar :: "arith \<Rightarrow> DVH \<Rightarrow> string option \<Rightarrow> error + rat list" where
  "volume_counts_ar A self vu =
     (if \<not> str_truthy vu
      then bindE (relative_volume_ar A self) (\<lambda>d. Inr (counts d))
      else bindE (absolute_volume_ar A self 14 abs_volume_units) (\<lambda>d. Inr (counts d)))"

definition dose_constraint_ar ::
  "arith \<Rightarrow> DVH \<Rightarrow> rat \<Rightarrow> string option \<Rightarrow> error + DVHValue" where
  "dose_constraint_ar A self vol vu =
     bindE (volume_counts_ar A self vu) (\<lambda>vcs.
     bindE (np_max vcs) (\<lambda>m.
       if vol > m then Inr \<lparr>val = 0, units = dose_units self\<rparr>
       else bindE (np_argmin (map (distance A vol) vcs)) (\<lambda>index.
            bindE (py_nth (bins self) index) (\<lambda>b.
              Inr \<lparr>val = b, units = dose_units self\<rparr>))))"

definition nearer_is_smaller :: "arith \<Rightarrow> bool" where
  \<comment> \<open>of two numbers that are not above \<open>x\<close>, the one nearer to \<open>x\<close> does not get the
      greater computed distance; a subtraction that rounds has this property\<close>
  "nearer_is_smaller A \<longleftrightarrow>
     (\<forall>a b x. a \<le> b \<and> b \<le> x \<longrightarrow> distance A x b \<le> distance A x a)"

subsection \<open>Notions of the specification\<close>

definition constructed :: "DVH \<Rightarrow> bool" where
  \<comment> \<open>what \<open>DVH_init\<close> establishes: a first edge that is zero and lower-case labels\<close>
  "constructed H \<longleftrightarrow>
     bins H \<noteq> [] \<and> hd (bins H) = 0 \<and> lower (dvh_type H) = dvh_type H
     \<and> lower (dose_units H) = dose_units H \<and> lower (volume_units H) = volume_units H"

definition first_token :: "string \<Rightarrow> string" where
  \<comment> \<open>the name up to its first white space\<close>
  "first_token nm = takeWhile (\<lambda>c. \<not> is_space c) nm"

definition metric_grammar :: "string \<Rightarrow> bool" where
  \<comment> \<open>the grammar \<^verbatim>\<open>{D|V}{number}{unit?}\<close> of the specification, for a whole name:
      a letter D or V, an integer or decimal number, and possibly \<^verbatim>\<open>gy\<close> or
      \<^verbatim>\<open>cc\<close>, letters in either case\<close>
  "metric_grammar s =
     (case s of
        [] \<Rightarrow> False
      | k # r \<Rightarrow>
          (lower_char k = CHR ''d'' \<or> lower_char k = CHR ''v'')
          \<and> takeWhile is_digit r \<noteq> []
          \<and> (let r1 = dropWhile is_digit r;
                  r2 = (case r1 of [] \<Rightarrow> [] | c # t \<Rightarrow> if c = CHR ''.'' then t else r1);
                  r3 = dropWhile is_digit r2
              in r3 = [] \<or> lower r3 = ''gy'' \<or> lower r3 = ''cc''))"

definition nonincreasing :: "rat list \<Rightarrow> bool" where
  "nonincreasing cs = sorted_wrt (\<lambda>a b. b \<le> a) cs"

definition increasing :: "rat list \<Rightarrow> bool" where
  \<comment> \<open>strictly\<close>
  "increasing bs = sorted_wrt (\<lambda>a b. a < b) bs"

definition diff_counts :: "rat list \<Rightarrow> rat list" where
  \<comment> \<open>the counts \<open>differential\<close> computes, named for the statements below\<close>
  "diff_counts cs = map abs (map (\<lambda>x. x * (- 1)) (np_diff cs)) @ [0]"

subsection \<open>Example histograms\<close>

definition ex8 :: DVH where
  "ex8 = \<lparr>counts = [10, 8, 5, 2, 0], bins = [0, 1, 2, 3, 4, 5], dvh_type = ''cumulative'',
           dose_units = ''gy'', volume_units = ''cm3'', rx_dose = None, name = None\<rparr>"

definition ex_rising :: DVH where
  "ex_rising = \<lparr>counts = [5, 8], bins = [0, 1, 2], dvh_type = ''cumulative'',
           dose_units = ''gy'', volume_units = ''cm3'', rx_dose = None, name = None\<rparr>"


definition ex_pct :: DVH where
  "ex_pct = \<lparr>counts = [100, 50, 0], bins = [0, 50, 100, 150], dvh_type = ''cumulative'',
           dose_units = ''%'', volume_units = ''%'', rx_dose = None, name = None\<rparr>"


definition ex_zero_rx :: DVH where
  "ex_zero_rx = \<lparr>counts = [100, 50, 0], bins = [0, 50, 100, 150], dvh_type = ''cumulative'',
           dose_units = ''cgy'', volume_units = ''%'', rx_dose = Some 0, name = None\<rparr>"

definition ex_unchecked :: DVH where
  "ex_unchecked = \<lparr>counts = [1, 2, 3], bins = [0, 5, 3], dvh_type = ''cumulative'',
           dose_units = ''gy'', volume_units = ''cm3'', rx_dose = None, name = None\<rparr>"

definition ex_neg_rx :: DVH where
  "ex_neg_rx = \<lparr>counts = [100, 50, 0], bins = [0, 50, 100, 150], dvh_type = ''cumulative'',
           dose_units = ''%'', volume_units = ''%'', rx_dose = Some (- 60), name = None\<rparr>"

section \<open>Properties\<close>

subsection \<open>Construction\<close>

lemmas lower_eval = lower_def lower_char_def char_of_def bit_Suc_0_iff

lemmas units_defs = abs_dose_units_def abs_volume_units_def relative_units_def

lemma lower_char_idem: "lower_char (lower_char c) = lower_char c"
  by (simp add: lower_char_def Let_def)

lemma lower_idem: "lower (lower s) = lower s"
  by (simp add: lower_def lower_char_idem)

lemma DVH_init_constructed:
  "DVH_init cs bs ty du vu rx nm = Inr H \<Longrightarrow> constructed H"
  by (auto simp: DVH_init_def constructed_def lower_idem split: list.splits if_splits)

lemma constructed_from_dict: "constructed H \<Longrightarrow> from_dict H = Inr H"
  by (cases "bins H") (auto simp: from_dict_def DVH_init_def constructed_def)

lemma constructed_iff:
  "constructed H \<longleftrightarrow> (\<exists>cs bs ty du vu rx nm. DVH_init cs bs ty du vu rx nm = Inr H)"
  using DVH_init_constructed constructed_from_dict unfolding from_dict_def by blast

lemma ex8_constructed: "constructed ex8"
  by (simp add: constructed_def ex8_def lower_eval)

subsection \<open>The differential and the cumulative view\<close>

lemma differential_eq:
  assumes "constructed H" "dvh_type H \<noteq> ''differential''"
  shows "differential H
         = Inr (H\<lparr>counts := diff_counts (counts H), dvh_type := ''differential''\<rparr>)"
  using assms
  by (simp add: differential_def diff_counts_def constructed_from_dict constructed_def lower_eval)


lemma diff_counts_simps:
  "diff_counts [] = [0]" "diff_counts [x] = [0]"
  "diff_counts (x # y # zs) = \<bar>x - y\<bar> # diff_counts (y # zs)"
  by (simp_all add: diff_counts_def np_diff_def)

lemma length_diff_counts: "length (diff_counts cs) = max 1 (length cs)"
  by (induction cs rule: induct_list012) (simp_all add: diff_counts_simps)

lemma last_diff_counts: "last (diff_counts cs) = 0"
  by (simp add: diff_counts_def)

lemma nth_diff_counts:
  "Suc i < length cs \<Longrightarrow> diff_counts cs ! i = \<bar>cs ! i - cs ! Suc i\<bar>"
proof (induction cs arbitrary: i rule: induct_list012)
  case (3 x y zs)
  then show ?case by (cases i) (simp_all add: diff_counts_simps)
qed simp_all

lemma nonincreasing_nth:
  "nonincreasing cs \<Longrightarrow> Suc i < length cs \<Longrightarrow> cs ! Suc i \<le> cs ! i"
  by (simp add: nonincreasing_def sorted_wrt_iff_nth_less)

text \<open>
  Claim C2, as amended. The source takes the absolute value of each difference. For a
  histogram made by the constructor, of type \<^verbatim>\<open>cumulative\<close> and with \<open>N\<close> counts, the
  differential view has the counts \<open>diff[i] = |counts[i] - counts[i+1]|\<close> for every
  \<open>i\<close> in \<open>[0, N-2]\<close>, which is \<open>counts[i] - counts[i+1]\<close> when the counts do not
  increase, and a last count of zero; it has \<open>N\<close> counts (one count when \<open>N = 0\<close>), the
  type \<^verbatim>\<open>differential\<close>, and every other attribute of the histogram.
\<close>

theorem C2_differential_counts:
  assumes "constructed H" and "dvh_type H = ''cumulative''"
  shows "\<exists>D. differential H = Inr D
        \<and> length (counts D) = max 1 (length (counts H))
        \<and> (\<forall>i. Suc i < length (counts H)
               \<longrightarrow> counts D ! i = \<bar>counts H ! i - counts H ! Suc i\<bar>)
        \<and> (nonincreasing (counts H) \<longrightarrow>
             (\<forall>i. Suc i < length (counts H)
                 \<longrightarrow> counts D ! i = counts H ! i - counts H ! Suc i))
        \<and> last (counts D) = 0
        \<and> D = H\<lparr>counts := counts D, dvh_type := ''differential''\<rparr>"
proof -
  let ?D = "H\<lparr>counts := diff_counts (counts H), dvh_type := ''differential''\<rparr>"
  have d: "differential H = Inr ?D"
    using assms by (simp add: differential_eq)
  have mono: "counts ?D ! i = counts H ! i - counts H ! Suc i"
    if "nonincreasing (counts H)" "Suc i < length (counts H)" for i
    using that nonincreasing_nth [OF that] by (simp add: nth_diff_counts)
  show ?thesis
    using d mono by (simp add: length_diff_counts last_diff_counts nth_diff_counts)
qed

text \<open>
  The theorem at the histogram with the counts \<open>[10, 8, 5, 2, 0]\<close> and the index 1.
\<close>

theorem C2_differential_counts_witness:
  "constructed ex8 \<and> dvh_type ex8 = ''cumulative'' \<and> Suc 1 < length (counts ex8)
   \<and> nonincreasing (counts ex8)
   \<and> (\<exists>D. differential ex8 = Inr D \<and> length (counts D) = 5
          \<and> counts D ! 1 = \<bar>counts ex8 ! 1 - counts ex8 ! Suc 1\<bar>
          \<and> counts D ! 1 = counts ex8 ! 1 - counts ex8 ! Suc 1
          \<and> last (counts D) = 0)"
proof -
  have h: "dvh_type ex8 = ''cumulative''" "Suc 1 < length (counts ex8)"
    "nonincreasing (counts ex8)" "length (counts ex8) = 5"
    by (simp_all add: ex8_def nonincreasing_def)
  from C2_differential_counts [OF ex8_constructed h(1)] obtain D where
    "differential ex8 = Inr D" "length (counts D) = max 1 (length (counts ex8))"
    "\<forall>i. Suc i < length (counts ex8)
        \<longrightarrow> counts D ! i = \<bar>counts ex8 ! i - counts ex8 ! Suc i\<bar>"
    "nonincreasing (counts ex8) \<longrightarrow>
       (\<forall>i. Suc i < length (counts ex8)
           \<longrightarrow> counts D ! i = counts ex8 ! i - counts ex8 ! Suc i)"
    "last (counts D) = 0"
    by blast
  then show ?thesis using h ex8_constructed by auto
qed

text \<open>
  Claim C2 as stated fails where the cumulative counts rise: for the counts \<open>[5, 8]\<close>
  the source gives \<open>diff[0] = 3\<close>, and \<open>counts[0] - counts[1]\<close> is \<open>-3\<close>.
\<close>

theorem C2_differential_counts_counterexample:
  "constructed ex_rising \<and> dvh_type ex_rising = ''cumulative''
   \<and> differential ex_rising
       = Inr (ex_rising\<lparr>counts := [3, 0], dvh_type := ''differential''\<rparr>)
   \<and> counts ex_rising ! 0 - counts ex_rising ! 1 = - 3"
  by (simp add: ex_rising_def constructed_def differential_def from_dict_def DVH_init_def
      np_diff_def lower_eval)















subsection \<open>The concrete scenario\<close>

text \<open>
  Claim C8, as amended. For the cumulative histogram with the counts \<open>[10, 8, 5, 2, 0]\<close>
  over the bins \<open>[0, 1, 2, 3, 4, 5]\<close>: the total volume is 10, the differential counts
  are \<open>[2, 3, 3, 2, 0]\<close>, the bin centers are \<open>[0.5, 1.5, 2.5, 3.5, 4.5]\<close>, and the mean
  dose, their average weighted by the differential counts, is \<open>20 / 10 = 2\<close>.
\<close>

theorem C8_scenario:
  "DVH_init [10, 8, 5, 2, 0] [0, 1, 2, 3, 4, 5] ''cumulative'' abs_dose_units abs_volume_units
     None None = Inr ex8
   \<and> volume ex8 = Inr 10
   \<and> differential ex8 = Inr (ex8\<lparr>counts := [2, 3, 3, 2, 0], dvh_type := ''differential''\<rparr>)
   \<and> bincenters ex8 = [1 / 2, 3 / 2, 5 / 2, 7 / 2, 9 / 2]
   \<and> mean ex8 = Inr 2"
  by (simp add: ex8_def DVH_init_def units_defs volume_def mean_def differential_def
      from_dict_def np_diff_def bincenters_def broadcast2_def bindE_def lower_eval)

text \<open>
  Claim C8 as stated gives the mean dose as 2.1. The source returns 2, which is not
  close to 2.1 in the sense of \<^verbatim>\<open>np.isclose\<close>.
\<close>

theorem C8_scenario_counterexample:
  "counts ex8 = [10, 8, 5, 2, 0] \<and> bins ex8 = [0, 1, 2, 3, 4, 5]
   \<and> dvh_type ex8 = ''cumulative''
   \<and> mean ex8 = Inr 2 \<and> \<not> isclose 2 (21 / 10)"
  by (simp add: ex8_def mean_def differential_def from_dict_def DVH_init_def
      np_diff_def bincenters_def broadcast2_def bindE_def isclose_def lower_eval)

subsection \<open>Dose units and the prescription dose\<close>






text \<open>
  Claim C3, as amended. The guard of the source is \<^verbatim>\<open>not self.rx_dose and not rx_dose\<close>,
  and a prescription dose of zero is as false as \<^verbatim>\<open>None\<close>. For every histogram whose dose
  units differ from the requested ones, \<open>absolute_dose\<close> and \<open>relative_dose\<close> fail with
  the error of the missing prescription dose if and only if each of the two, the
  \<^verbatim>\<open>rx_dose\<close> of the instance and the argument, is \<^verbatim>\<open>None\<close> or zero; when the dose
  units are the requested ones already, each operation returns the instance and does not
  fail.
\<close>

theorem C3_missing_prescription:
  "(dose_units H \<noteq> du \<longrightarrow>
      (absolute_dose H rx du = Inl (AttributeError NoPrescriptionDose)
       \<longleftrightarrow> (rx_dose H = None \<or> rx_dose H = Some 0) \<and> (rx = None \<or> rx = Some 0)))
   \<and> (dose_units H \<noteq> relative_units \<longrightarrow>
      (relative_dose H rx = Inl (AttributeError NoPrescriptionDose)
       \<longleftrightarrow> (rx_dose H = None \<or> rx_dose H = Some 0) \<and> (rx = None \<or> rx = Some 0)))
   \<and> (dose_units H = du \<longrightarrow> absolute_dose H rx du = Inr H)
   \<and> (dose_units H = relative_units \<longrightarrow> relative_dose H rx = Inr H)"
  by (auto simp: absolute_dose_def relative_dose_def truthy_def from_dict_def DVH_init_def
      split: option.splits list.splits)




text \<open>
  The theorem at a histogram in percent and at one in gray, both without a prescription
  dose.
\<close>

theorem C3_missing_prescription_witness:
  "dose_units ex_pct \<noteq> abs_dose_units \<and> rx_dose ex_pct = None
   \<and> absolute_dose ex_pct None abs_dose_units = Inl (AttributeError NoPrescriptionDose)
   \<and> dose_units ex_pct = relative_units \<and> relative_dose ex_pct None = Inr ex_pct
   \<and> dose_units ex8 \<noteq> relative_units \<and> rx_dose ex8 = None
   \<and> relative_dose ex8 None = Inl (AttributeError NoPrescriptionDose)
   \<and> dose_units ex8 = abs_dose_units \<and> absolute_dose ex8 None abs_dose_units = Inr ex8"
proof -
  have h: "dose_units ex_pct \<noteq> abs_dose_units" "rx_dose ex_pct = None"
    "dose_units ex_pct = relative_units" "dose_units ex8 \<noteq> relative_units"
    "rx_dose ex8 = None" "dose_units ex8 = abs_dose_units"
    by (simp_all add: ex_pct_def ex8_def units_defs)
  show ?thesis
    using h C3_missing_prescription [of ex_pct abs_dose_units None]
      C3_missing_prescription [of ex8 abs_dose_units None]
    by simp
qed

text \<open>
  Claim C3 as stated fails where the instance has the prescription dose zero: it is
  present (it is not \<^verbatim>\<open>None\<close>), and both conversions raise the error of the missing
  prescription dose.
\<close>

theorem C3_missing_prescription_counterexample:
  "rx_dose ex_zero_rx \<noteq> None
   \<and> dose_units ex_zero_rx \<noteq> abs_dose_units
   \<and> absolute_dose ex_zero_rx None abs_dose_units = Inl (AttributeError NoPrescriptionDose)
   \<and> dose_units ex_zero_rx \<noteq> relative_units
   \<and> relative_dose ex_zero_rx None = Inl (AttributeError NoPrescriptionDose)"
  by (simp add: ex_zero_rx_def units_defs absolute_dose_def relative_dose_def truthy_def)







subsection \<open>What the constructor establishes\<close>

text \<open>
  Claim C9, as amended. The constructor checks nothing but the first edge. From any
  counts and any non-empty bins it makes a histogram whose bins start with a zero edge
  (put in front when the first edge of the caller is not zero) and whose counts are those
  of the caller; the stored bins are strictly increasing exactly when those of the caller
  are and their first edge is not negative; and \<open>len(counts) == len(bins) - 1\<close> holds
  exactly when the caller gave one edge more than counts with a first edge of zero, or as
  many edges as counts with a first edge that is not zero.
\<close>

theorem C9_constructor_shape:
  assumes "bs \<noteq> []"
  shows "\<exists>H. DVH_init cs bs ty du vu rx nm = Inr H
          \<and> counts H = cs
          \<and> bins H = (if hd bs = 0 then bs else 0 # bs)
          \<and> hd (bins H) = 0
          \<and> (increasing (bins H) \<longleftrightarrow> increasing bs \<and> 0 \<le> hd bs)
          \<and> (length (counts H) = length (bins H) - 1
               \<longleftrightarrow> length cs = (if hd bs = 0 then length bs - 1 else length bs))"
proof -
  obtain b bs' where b: "bs = b # bs'" using assms by (cases bs) auto
  show ?thesis
    unfolding b by (auto simp: DVH_init_def increasing_def)
qed

text \<open>The theorem at five counts and the five edges \<open>[1, 2, 3, 4, 5]\<close>.\<close>

theorem C9_constructor_shape_witness:
  "[1, 2, 3, 4, 5 :: rat] \<noteq> []
   \<and> (\<exists>H. DVH_init [10, 8, 5, 2, 0] [1, 2, 3, 4, 5] ''Cumulative'' ''Gy'' ''cm3'' None None
            = Inr H
          \<and> bins H = [0, 1, 2, 3, 4, 5] \<and> increasing (bins H)
          \<and> length (counts H) = length (bins H) - 1)"
  using C9_constructor_shape [of "[1, 2, 3, 4, 5]" "[10, 8, 5, 2, 0]" "''Cumulative''" "''Gy''"
      "''cm3''" None None]
  by (auto simp: increasing_def)

text \<open>
  Claim C9 as stated fails: the constructor accepts three counts with the edges
  \<open>[0, 5, 3]\<close> and stores them as they are.
\<close>

theorem C9_constructor_shape_counterexample:
  "DVH_init [1, 2, 3] [0, 5, 3] ''cumulative'' ''gy'' ''cm3'' None None = Inr ex_unchecked
   \<and> \<not> increasing (bins ex_unchecked)
   \<and> length (counts ex_unchecked) \<noteq> length (bins ex_unchecked) - 1"
  by (simp add: DVH_init_def ex_unchecked_def increasing_def lower_eval)

subsection \<open>Lookups beyond the range of the histogram\<close>

lemma fold_min_Min: "fold min xs x = Min (set (x # xs))"
  by (rule Min.set_eq_fold [symmetric])

lemma fold_max_Max: "fold max xs x = Max (set (x # xs))"
  by (rule Max.set_eq_fold [symmetric])

lemma np_max_eq: "xs \<noteq> [] \<Longrightarrow> np_max xs = Inr (Max (set xs))"
  by (cases xs) (simp_all add: np_max_def fold_max_Max del: set_simps)

text \<open>
  Where the first \<open>n\<close> elements all differ from the minimum, \<^verbatim>\<open>argmin\<close> is at least
  \<open>n\<close>.
\<close>

lemma length_takeWhile_ge:
  assumes "n \<le> length ys" and "\<forall>i<n. P (ys ! i)"
  shows "n \<le> length (takeWhile P ys)"
proof (rule ccontr)
  assume "\<not> n \<le> length (takeWhile P ys)"
  then have k: "length (takeWhile P ys) < n" by simp
  then have "length (takeWhile P ys) < length ys" using assms(1) by simp
  then have "\<not> P (ys ! length (takeWhile P ys))" by (rule nth_length_takeWhile)
  then show False using assms(2) k by blast
qed

lemma np_argmin_ge:
  assumes "n \<le> length ys" and "ys \<noteq> []" and "\<forall>i<n. ys ! i \<noteq> Min (set ys)"
  shows "\<exists>k. np_argmin ys = Inr k \<and> n \<le> k"
proof -
  obtain y ys' where y: "ys = y # ys'" using assms(2) by (cases ys) auto
  have m: "fold min ys' y = Min (set ys)" unfolding y by (rule fold_min_Min)
  have "np_argmin ys = Inr (length (takeWhile (\<lambda>z. z \<noteq> fold min ys' y) ys))"
    by (simp add: np_argmin_def y)
  then have "np_argmin ys = Inr (length (takeWhile (\<lambda>z. z \<noteq> Min (set ys)) ys))"
    by (simp only: m)
  moreover have "n \<le> length (takeWhile (\<lambda>z. z \<noteq> Min (set ys)) ys)"
    using assms(1,3) by (rule length_takeWhile_ge)
  ultimately show ?thesis by blast
qed

lemma increasing_nth_le:
  assumes "increasing dbs" and "i \<le> j" and "j < length dbs"
  shows "dbs ! i \<le> dbs ! j"
proof (cases "i = j")
  case False
  then have "i < j" using assms(2) by simp
  then have "dbs ! i < dbs ! j"
    using assms(1,3) sorted_wrt_nth_less [of "(<)" dbs i j] by (simp add: increasing_def)
  then show ?thesis by simp
qed simp

text \<open>
  Beyond the last of increasing edges the computed distances do not grow along the
  edges; the first minimum lies at or after the index \<open>n\<close> as soon as the distance at
  the index \<open>n - 1\<close> differs from the distance at the last edge.
\<close>

lemma argmin_beyond_last_ar:
  assumes near: "nearer_is_smaller A"
    and inc: "increasing dbs" and n: "n < length dbs" and beyond: "last dbs < dose"
    and apart: "n = 0 \<or> distance A dose (dbs ! (n - 1)) \<noteq> distance A dose (last dbs)"
  shows "\<exists>k. np_argmin (map (distance A dose) dbs) = Inr k \<and> n \<le> k"
proof -
  let ?ds = "map (distance A dose) dbs"
  have ne: "dbs \<noteq> []" using n by auto
  have last: "last dbs = dbs ! (length dbs - 1)" using ne by (simp add: last_conv_nth)
  have le_last: "dbs ! j \<le> last dbs" if "j < length dbs" for j
    using increasing_nth_le [OF inc, of j "length dbs - 1"] that by (simp add: last)
  have anti: "distance A dose (dbs ! j) \<le> distance A dose (dbs ! i)"
    if "i \<le> j" "j < length dbs" for i j
    using near increasing_nth_le [OF inc that] le_last [OF that(2)] beyond
    unfolding nearer_is_smaller_def by (meson less_imp_le order_trans)
  have "?ds ! i \<noteq> Min (set ?ds)" if i: "i < n" for i
  proof -
    from i apart have ap: "distance A dose (dbs ! (n - 1)) \<noteq> distance A dose (last dbs)"
      by auto
    have "distance A dose (last dbs) \<le> distance A dose (dbs ! (n - 1))"
      using anti [of "n - 1" "length dbs - 1"] n by (simp add: last)
    with ap have "distance A dose (last dbs) < distance A dose (dbs ! (n - 1))"
      by simp
    also have "\<dots> \<le> distance A dose (dbs ! i)"
      using anti [of i "n - 1"] i n by simp
    finally have lt: "distance A dose (last dbs) < ?ds ! i" using i n by simp
    have "distance A dose (last dbs) \<in> set ?ds" using ne by simp
    then have "Min (set ?ds) \<le> distance A dose (last dbs)" by simp
    then show ?thesis using lt by simp
  qed
  then have "\<forall>i<n. ?ds ! i \<noteq> Min (set ?ds)" by blast
  moreover have "n \<le> length ?ds" "?ds \<noteq> []" using n by auto
  ultimately show ?thesis using np_argmin_ge [of n ?ds] by blast
qed

lemma from_dict_bins_ge:
  assumes "from_dict d = Inr D"
  shows "length (bins d) \<le> length (bins D)"
  using assms by (auto simp: from_dict_def DVH_init_def split: list.splits if_splits)

lemma dose_bins_ar_length:
  assumes "dose_bins_ar A H du = Inr dbs"
  shows "length (bins H) \<le> length dbs"
proof -
  have a: "length (bins H) \<le> length (bins D)"
    if "absolute_dose_ar A H (Some 14) abs_dose_units = Inr D" for D
    using that
    by (auto simp: absolute_dose_ar_def split: if_splits option.splits
        dest!: from_dict_bins_ge)
  have r: "length (bins H) \<le> length (bins D)"
    if "relative_dose_ar A H (Some 14) = Inr D" for D
    using that
    by (auto simp: relative_dose_ar_def split: if_splits option.splits
        dest!: from_dict_bins_ge)
  show ?thesis
    using assms a r
    by (auto simp: dose_bins_ar_def bindE_def split: if_splits sum.splits)
qed

text \<open>
  Claim C6, as amended. \<open>volume_constraint\<close> looks the dose up in the bins after a
  conversion (to relative dose without a unit, to absolute dose with one, with the
  prescription dose of the instance or else the fixed value 14), and the nearest edge is
  decided on the computed distances. In every arithmetic in which a nearer number does
  not get the greater computed distance, for a histogram with more edges than counts:
  when the converted edges are strictly increasing, the dose lies beyond the last of
  them, and the computed distance from the dose to the last edge differs from the one to
  the edge of the last count, \<open>volume_constraint\<close> returns the volume zero in the volume
  units of the histogram. And in every arithmetic, \<open>dose_constraint\<close> at a volume above
  the maximum of the counts it looks the volume up in returns the dose zero in the dose
  units of the histogram.
\<close>

theorem C6_beyond_range:
  assumes "nearer_is_smaller A"
  shows
  "(length (counts H) < length (bins H)
      \<and> dose_bins_ar A H du = Inr dbs \<and> increasing dbs \<and> last dbs < dose
      \<and> (counts H = []
           \<or> distance A dose (dbs ! (length (counts H) - 1)) \<noteq> distance A dose (last dbs))
    \<longrightarrow> volume_constraint_ar A H dose du = Inr \<lparr>val = 0, units = volume_units H\<rparr>)
   \<and> (volume_counts_ar A H vu = Inr vcs \<and> vcs \<noteq> [] \<and> Max (set vcs) < vol
    \<longrightarrow> dose_constraint_ar A H vol vu = Inr \<lparr>val = 0, units = dose_units H\<rparr>)"
proof (intro conjI impI)
  assume a: "length (counts H) < length (bins H)
      \<and> dose_bins_ar A H du = Inr dbs \<and> increasing dbs \<and> last dbs < dose
      \<and> (counts H = []
           \<or> distance A dose (dbs ! (length (counts H) - 1)) \<noteq> distance A dose (last dbs))"
  then have len: "length (bins H) \<le> length dbs"
    using dose_bins_ar_length by blast
  have "\<exists>k. np_argmin (map (distance A dose) dbs) = Inr k \<and> length (counts H) \<le> k"
    using a len by (intro argmin_beyond_last_ar [OF assms]) auto
  then show "volume_constraint_ar A H dose du = Inr \<lparr>val = 0, units = volume_units H\<rparr>"
    using a by (auto simp: volume_constraint_ar_def bindE_def)
next
  assume "volume_counts_ar A H vu = Inr vcs \<and> vcs \<noteq> [] \<and> Max (set vcs) < vol"
  then show "dose_constraint_ar A H vol vu = Inr \<lparr>val = 0, units = dose_units H\<rparr>"
    by (simp add: dose_constraint_ar_def bindE_def np_max_eq)
qed

text \<open>
  The arithmetics the theorem speaks about: every arithmetic that rounds the exact result
  monotonically and leaves zero as it is, and the exact one. With the exact arithmetic the
  definitions in machine arithmetic are the definitions above.
\<close>

lemma nearer_is_smaller_rounded:
  assumes "mono rnd" and "rnd 0 = 0"
  shows "nearer_is_smaller (rounded rnd)"
  unfolding nearer_is_smaller_def
proof (intro allI impI)
  fix a b x :: rat
  assume h: "a \<le> b \<and> b \<le> x"
  have "rnd (a - x) \<le> rnd (b - x)" using assms(1) h by (simp add: monoD)
  moreover have "rnd (b - x) \<le> 0" using monoD [OF assms(1), of "b - x" 0] assms(2) h by simp
  ultimately show "distance (rounded rnd) x b \<le> distance (rounded rnd) x a"
    by (simp add: distance_def rounded_def)
qed

lemma exact_ops:
  "a_mul exact = (*)" "a_div exact = (/)" "a_add exact = (+)" "a_sub exact = (-)"
  "a_abs exact = abs" "a_fabs exact = abs"
  by (simp_all add: exact_def)

lemma nearer_is_smaller_exact: "nearer_is_smaller exact"
  by (auto simp: nearer_is_smaller_def distance_def exact_ops)

lemma absolute_dose_ar_exact: "absolute_dose_ar exact H rx du = absolute_dose H rx du"
  unfolding absolute_dose_ar_def absolute_dose_def exact_ops by (rule refl)

lemma relative_dose_ar_exact: "relative_dose_ar exact H rx = relative_dose H rx"
  unfolding relative_dose_ar_def relative_dose_def exact_ops by (rule refl)

lemma absolute_volume_ar_exact: "absolute_volume_ar exact H v vu = absolute_volume H v vu"
  unfolding absolute_volume_ar_def absolute_volume_def exact_ops by (rule refl)

lemma differential_ar_exact: "differential_ar exact H = differential H"
  unfolding differential_ar_def differential_def np_diff_ar_def np_diff_def exact_ops
  by (rule refl)

lemma cumsum_from_ar_exact: "cumsum_from_ar exact acc xs = cumsum_from acc xs"
  by (induction xs arbitrary: acc) (simp_all add: exact_ops)

lemma cumsum_ar_exact: "cumsum_ar exact a = cumsum a"
  by (cases a) (simp_all add: cumsum_ar_def cumsum_def cumsum_from_ar_exact)

lemma cumulative_ar_exact: "cumulative_ar exact H = cumulative H"
  by (simp add: cumulative_ar_def cumulative_def cumsum_ar_exact)

lemma relative_volume_ar_exact: "relative_volume_ar exact H = relative_volume H"
proof (induction H rule: relative_volume.induct)
  case (1 self)
  show ?case
  proof (cases "volume_units self \<noteq> relative_units \<and> dvh_type self = ''differential''")
    case True
    show ?thesis
    proof (cases "cumulative self")
      case (Inl e)
      then show ?thesis
        using True
        by (subst relative_volume_ar.simps, subst relative_volume.simps)
          (simp add: cumulative_ar_exact)
    next
      case (Inr c)
      then have "relative_volume_ar exact c = relative_volume c"
        using 1 True by simp
      then show ?thesis
        using True Inr
        by (subst relative_volume_ar.simps, subst relative_volume.simps)
          (simp add: cumulative_ar_exact differential_ar_exact [abs_def])
    qed
  next
    case False
    then show ?thesis
      unfolding relative_volume_ar.simps [of exact self] relative_volume.simps [of self]
        exact_ops
      by auto
  qed
qed

lemma dose_bins_ar_exact: "dose_bins_ar exact H du = dose_bins H du"
  by (simp add: dose_bins_ar_def dose_bins_def relative_dose_ar_exact absolute_dose_ar_exact)

lemma volume_counts_ar_exact: "volume_counts_ar exact H vu = volume_counts H vu"
  by (simp add: volume_counts_ar_def volume_counts_def relative_volume_ar_exact
      absolute_volume_ar_exact)

lemma distance_exact: "distance exact x = (\<lambda>e. \<bar>e - x\<bar>)"
  by (simp add: distance_def [abs_def] exact_ops)

lemma volume_constraint_ar_exact:
  "volume_constraint_ar exact H dose du = volume_constraint H dose du"
  unfolding volume_constraint_ar_def volume_constraint_def dose_bins_ar_exact distance_exact
  by simp

lemma dose_constraint_ar_exact:
  "dose_constraint_ar exact H vol vu = dose_constraint H vol vu"
  unfolding dose_constraint_ar_def dose_constraint_def volume_counts_ar_exact distance_exact
  by simp

text \<open>
  In the exact arithmetic the condition on the two distances holds of itself: distinct
  edges below the dose have distinct distances from it.
\<close>

lemma distance_exact_apart:
  assumes "increasing dbs" and "0 < n" and "n < length dbs" and "last dbs < dose"
  shows "distance exact dose (dbs ! (n - 1)) \<noteq> distance exact dose (last dbs)"
proof -
  have ne: "dbs \<noteq> []" using assms(3) by auto
  have "dbs ! (n - 1) < dbs ! (length dbs - 1)"
    using assms(1-3) sorted_wrt_nth_less [of "(<)" dbs "n - 1" "length dbs - 1"]
    by (simp add: increasing_def)
  then have "dbs ! (n - 1) < last dbs" using ne by (simp add: last_conv_nth)
  then show ?thesis using assms(4) by (simp add: distance_exact)
qed

text \<open>Rounding to the multiples of a unit.\<close>

lemma mono_round_to: "0 < u \<Longrightarrow> mono (round_to u)"
  by (auto simp: mono_def round_to_def divide_right_mono intro!: mult_left_mono round_mono)

lemma round_to_zero: "round_to u 0 = 0"
  by (simp add: round_to_def)

lemma round_to_eval:
  assumes "of_int k - 1 / 2 \<le> x / u" and "x / u < of_int k + 1 / 2"
  shows "round_to u x = u * of_int k"
proof -
  have "\<lfloor>x / u + 1 / 2\<rfloor> = k"
    using assms by (intro floor_unique) simp_all
  then show ?thesis by (simp add: round_to_def round_def)
qed

lemma round_to_eighth_int: "round_to (1 / 8) (of_int k) = of_int k"
  using round_to_eval [of "k * 8" "of_int k" "1 / 8"] by simp

lemma relative_volume_ar_cumulative:
  "volume_units H \<noteq> relative_units \<Longrightarrow> dvh_type H \<noteq> ''differential'' \<Longrightarrow>
   relative_volume_ar A H = bindE (np_max (counts H)) (\<lambda>m.
             if m = 0 then Inl NonFinite
             else from_dict (H\<lparr>
                    counts := map (\<lambda>c. a_div A (a_mul A 100 c) m) (counts H),
                    volume_units := relative_units\<rparr>))"
  by (subst relative_volume_ar.simps) simp

text \<open>
  The theorem in the arithmetic that rounds to eighths, at a histogram in percent with
  the dose 151 beyond its last edge 150, and at the histogram of the concrete scenario
  with the volume 101 percent.
\<close>

theorem C6_beyond_range_witness:
  "nearer_is_smaller (rounded (round_to (1 / 8)))
   \<and> length (counts ex_pct) < length (bins ex_pct)
   \<and> dose_bins_ar (rounded (round_to (1 / 8))) ex_pct None = Inr [0, 50, 100, 150]
   \<and> increasing [0, 50, 100, 150 :: rat] \<and> last [0, 50, 100, 150] < (151 :: rat)
   \<and> distance (rounded (round_to (1 / 8))) 151
         ([0, 50, 100, 150] ! (length (counts ex_pct) - 1))
       \<noteq> distance (rounded (round_to (1 / 8))) 151 (last [0, 50, 100, 150])
   \<and> volume_constraint_ar (rounded (round_to (1 / 8))) ex_pct 151 None
       = Inr \<lparr>val = 0, units = volume_units ex_pct\<rparr>
   \<and> volume_counts_ar (rounded (round_to (1 / 8))) ex8 None = Inr [100, 80, 50, 20, 0]
   \<and> [100, 80, 50, 20, 0 :: rat] \<noteq> []
   \<and> Max (set [100, 80, 50, 20, 0]) < (101 :: rat)
   \<and> dose_constraint_ar (rounded (round_to (1 / 8))) ex8 101 None
       = Inr \<lparr>val = 0, units = dose_units ex8\<rparr>"
proof -
  let ?A = "rounded (round_to (1 / 8))"
  have n: "nearer_is_smaller ?A"
    by (intro nearer_is_smaller_rounded mono_round_to round_to_zero) simp
  have r: "round_to (1 / 8) (- 51) = - 51" "round_to (1 / 8) (- 1) = - 1"
    "round_to (1 / 8) 1000 = 1000" "round_to (1 / 8) 800 = 800" "round_to (1 / 8) 500 = 500"
    "round_to (1 / 8) 200 = 200" "round_to (1 / 8) 100 = 100" "round_to (1 / 8) 80 = 80"
    "round_to (1 / 8) 50 = 50" "round_to (1 / 8) 20 = 20"
    using round_to_eighth_int [of "- 51"] round_to_eighth_int [of "- 1"]
      round_to_eighth_int [of 1000] round_to_eighth_int [of 800] round_to_eighth_int [of 500]
      round_to_eighth_int [of 200] round_to_eighth_int [of 100] round_to_eighth_int [of 80]
      round_to_eighth_int [of 50] round_to_eighth_int [of 20]
    by simp_all
  have h1: "length (counts ex_pct) < length (bins ex_pct)"
    "dose_bins_ar ?A ex_pct None = Inr [0, 50, 100, 150]"
    "increasing [0, 50, 100, 150 :: rat]"
    "last [0, 50, 100, 150] < (151 :: rat)"
    by (simp_all add: ex_pct_def dose_bins_ar_def str_truthy_def relative_dose_ar_def units_defs
        bindE_def increasing_def)
  have h2: "distance ?A 151 ([0, 50, 100, 150] ! (length (counts ex_pct) - 1))
       \<noteq> distance ?A 151 (last [0, 50, 100, 150])"
    by (simp add: ex_pct_def distance_def rounded_def r)
  have h3: "volume_counts_ar ?A ex8 None = Inr [100, 80, 50, 20, 0]"
    by (simp add: volume_counts_ar_def str_truthy_def bindE_def relative_volume_ar_cumulative
        ex8_def units_defs np_max_def from_dict_def DVH_init_def rounded_def r round_to_zero)
  have h4: "[100, 80, 50, 20, 0 :: rat] \<noteq> []" "Max (set [100, 80, 50, 20, 0]) < (101 :: rat)"
    by simp_all
  show ?thesis
    using n h1 h2 h3 h4
      C6_beyond_range [OF n, THEN conjunct1, of ex_pct None "[0, 50, 100, 150]" 151]
      C6_beyond_range [OF n, THEN conjunct2, of ex8 None "[100, 80, 50, 20, 0]" 101]
    by simp
qed

text \<open>
  The condition on the two distances is needed. An arithmetic that rounds to thousands
  gives every edge of the histogram in percent the same distance from the dose 100000, as
  binary64 does for a dose of the size of \<^verbatim>\<open>1e19\<close>; the first edge is then the
  nearest, and the result is the first count.
\<close>

lemma volume_constraint_ar_merged:
  "nearer_is_smaller (rounded (round_to 1000))
   \<and> dose_bins_ar (rounded (round_to 1000)) ex_pct None = Inr [0, 50, 100, 150]
   \<and> last [0, 50, 100, 150] < (100000 :: rat)
   \<and> map (distance (rounded (round_to 1000)) 100000) [0, 50, 100, 150]
       = [100000, 100000, 100000, 100000]
   \<and> volume_constraint_ar (rounded (round_to 1000)) ex_pct 100000 None
       = Inr \<lparr>val = 100, units = ''%''\<rparr>"
proof -
  have n: "nearer_is_smaller (rounded (round_to 1000))"
    by (intro nearer_is_smaller_rounded mono_round_to round_to_zero) simp
  have r: "round_to 1000 (- 100000) = - 100000" "round_to 1000 (- 99950) = - 100000"
    "round_to 1000 (- 99900) = - 100000" "round_to 1000 (- 99850) = - 100000"
    using round_to_eval [of "- 100" "- 100000" 1000] round_to_eval [of "- 100" "- 99950" 1000]
      round_to_eval [of "- 100" "- 99900" 1000] round_to_eval [of "- 100" "- 99850" 1000]
    by simp_all
  have d: "dose_bins_ar (rounded (round_to 1000)) ex_pct None = Inr [0, 50, 100, 150]"
    by (simp add: ex_pct_def dose_bins_ar_def str_truthy_def relative_dose_ar_def units_defs
        bindE_def)
  have m: "map (distance (rounded (round_to 1000)) 100000) [0, 50, 100, 150]
       = [100000, 100000, 100000, 100000]"
    by (simp add: distance_def rounded_def r)
  have "volume_constraint_ar (rounded (round_to 1000)) ex_pct 100000 None
       = Inr \<lparr>val = 100, units = ''%''\<rparr>"
    unfolding volume_constraint_ar_def d bindE_def sum.case m
    by (simp add: np_argmin_def ex_pct_def)
  then show ?thesis using n d m by simp
qed

text \<open>
  Claim C6 as stated fails for \<open>volume_constraint\<close>. The histogram of the concrete
  scenario is in gray and has no prescription dose: the dose 6 lies beyond its last edge
  5, the lookup is made in the edges converted with the value 14, and the result is the
  count 8. And with a negative prescription dose the converted edges decrease: the dose
  200 lies beyond every edge, converted or not, and the result is the first count.
\<close>

theorem C6_beyond_range_counterexample:
  "constructed ex8 \<and> length (counts ex8) = length (bins ex8) - 1 \<and> increasing (bins ex8)
   \<and> last (bins ex8) < 6
   \<and> volume_constraint ex8 6 None = Inr \<lparr>val = 8, units = ''cm3''\<rparr>
   \<and> constructed ex_neg_rx \<and> length (counts ex_neg_rx) = length (bins ex_neg_rx) - 1
   \<and> increasing (bins ex_neg_rx) \<and> last (bins ex_neg_rx) < 200
   \<and> dose_bins ex_neg_rx (Some ''gy'') = Inr [0, - 30, - 60, - 90]
   \<and> volume_constraint ex_neg_rx 200 (Some ''gy'') = Inr \<lparr>val = 100, units = ''%''\<rparr>"
  by (simp add: ex8_def ex_neg_rx_def constructed_def increasing_def volume_constraint_def
      dose_bins_def str_truthy_def relative_dose_def absolute_dose_def truthy_def units_defs
      from_dict_def DVH_init_def bindE_def np_argmin_def lower_eval)

subsection \<open>Statistic names\<close>

lemma is_space_lower_char: "is_space (lower_char c) = is_space c"
  by (auto simp: lower_char_def is_space_def Let_def)

lemma is_digit_lower_char: "is_digit (lower_char c) = is_digit c"
  by (auto simp: lower_char_def is_digit_def Let_def)

lemma lower_char_digit: "is_digit c \<Longrightarrow> lower_char c = c"
  by (auto simp: lower_char_def is_digit_def Let_def)

lemma lower_char_dot: "lower_char CHR ''.'' = CHR ''.''"
  by (simp add: lower_char_def)

lemma digit_not_space: "is_digit c \<Longrightarrow> \<not> is_space c"
  by (auto simp: is_digit_def is_space_def Let_def)

lemma letter_facts:
  assumes "lower_char c = x" "\<not> is_space x" "\<not> is_digit x" "x \<noteq> CHR ''.''"
  shows "\<not> is_space c \<and> \<not> is_digit c \<and> c \<noteq> CHR ''.''"
  using assms is_space_lower_char [of c] is_digit_lower_char [of c] lower_char_dot by auto

lemma DV_facts:
  assumes "lower_char c = CHR ''d'' \<or> lower_char c = CHR ''v''"
  shows "\<not> is_space c \<and> \<not> is_digit c \<and> c \<noteq> CHR ''.''"
  using assms
  by (auto dest!: letter_facts simp: is_space_def is_digit_def)


lemma re_greedy_iff:
  "(t, r) \<in> set (re_greedy cls m s)
   \<longleftrightarrow> (\<exists>n. m \<le> n \<and> n \<le> length (takeWhile cls s) \<and> t = take n s \<and> r = drop n s)"
  by (auto simp: re_greedy_def)

lemma take_within_takeWhile:
  assumes "n \<le> length (takeWhile P s)"
  shows "\<forall>c\<in>set (take n s). P c"
proof -
  have "take n s = take n (takeWhile P s @ dropWhile P s)" by simp
  also have "\<dots> = take n (takeWhile P s)" using assms by (simp del: takeWhile_dropWhile_id)
  finally have "set (take n s) \<subseteq> set (takeWhile P s)" by (metis set_take_subset)
  then show ?thesis by (auto dest: set_takeWhileD)
qed

lemma re_greedyD:
  assumes "(t, r) \<in> set (re_greedy cls m s)"
  shows "s = t @ r \<and> (\<forall>c\<in>set t. cls c) \<and> (0 < m \<longrightarrow> t \<noteq> [])"
proof -
  obtain n where n: "m \<le> n" "n \<le> length (takeWhile cls s)" "t = take n s" "r = drop n s"
    using assms by (auto simp: re_greedy_iff)
  have "n \<le> length s" using n(2) length_takeWhile_le [of cls s] by linarith
  then show ?thesis
    using n take_within_takeWhile [OF n(2)] by auto
qed

lemma re_optional_iff:
  "(g, r) \<in> set (re_optional p s)
   \<longleftrightarrow> (\<exists>t. g = Some t \<and> (t, r) \<in> set (p s)) \<or> (g = None \<and> r = s)"
  by (auto simp: re_optional_def)

lemma re_DV_D:
  assumes "(g, r) \<in> set (re_DV s)"
  shows "\<exists>c. s = c # r \<and> g = [c] \<and> (lower_char c = CHR ''d'' \<or> lower_char c = CHR ''v'')"
  using assms by (cases s) (auto simp: re_DV_def split: if_splits)

lemma re_dot_D:
  assumes "(g, r) \<in> set (re_dot s)"
  shows "s = CHR ''.'' # r \<and> g = ''.''"
  using assms by (cases s) (auto simp: re_dot_def split: if_splits)

lemma re_unit_D:
  assumes "(g, r) \<in> set (re_unit s)"
  shows "\<exists>u1 u2. s = u1 # u2 # r \<and> g = [u1, u2]
           \<and> (lower g = ''gy'' \<or> lower g = ''cc'')"
proof -
  from assms have l: "2 \<le> length s" and g: "g = take 2 s" "r = drop 2 s"
    and u: "lower (take 2 s) = ''gy'' \<or> lower (take 2 s) = ''cc''"
    by (auto simp: re_unit_def split: if_splits)
  from l obtain u1 u2 rest where s: "s = u1 # u2 # rest"
    by (cases s; cases "tl s") auto
  show ?thesis using g u by (auto simp: s)
qed

text \<open>The shape of a name that the pattern matches without a prefix.\<close>

lemma re_matches_None_shape:
  assumes "(None, g2, g3, g4) \<in> set (re_matches nm)"
  shows "\<exists>k d1 dt d2 u r.
           nm = k # d1 @ dt @ d2 @ u @ r
           \<and> (lower_char k = CHR ''d'' \<or> lower_char k = CHR ''v'')
           \<and> d1 \<noteq> [] \<and> (\<forall>c\<in>set d1. is_digit c)
           \<and> (dt = [] \<or> dt = ''.'')
           \<and> (\<forall>c\<in>set d2. is_digit c)
           \<and> (u = [] \<or> (\<exists>u1 u2. u = [u1, u2] \<and> (lower u = ''gy'' \<or> lower u = ''cc'')))
           \<and> re_lookahead r"
proof -
  from assms obtain r1 r2 n1 r3 dt r4 n2 r5 r6 where
    m1: "(None, r1) \<in> set (re_optional (re_greedy (\<lambda>c. \<not> is_space c) 1) nm)" and
    m2: "(g2, r2) \<in> set (re_DV r1)" and
    m3: "(n1, r3) \<in> set (re_greedy is_digit 1 r2)" and
    m4: "(dt, r4) \<in> set (re_optional re_dot r3)" and
    m5: "(n2, r5) \<in> set (re_greedy is_digit 0 r4)" and
    m6: "(g4, r6) \<in> set (re_optional re_unit r5)" and
    m7: "re_lookahead r6"
    unfolding re_matches_def by auto
  from m1 have r1: "r1 = nm" by (simp add: re_optional_iff)
  from re_DV_D [OF m2] obtain k where
    k: "r1 = k # r2" "lower_char k = CHR ''d'' \<or> lower_char k = CHR ''v''" by blast
  from re_greedyD [OF m3] have
    d1: "r2 = n1 @ r3" "\<forall>c\<in>set n1. is_digit c" "n1 \<noteq> []" by simp_all
  from m4 have dt: "r3 = opt_text dt @ r4" "opt_text dt = [] \<or> opt_text dt = ''.''"
    by (auto simp: re_optional_iff opt_text_def dest: re_dot_D)
  from re_greedyD [OF m5] have
    d2: "r4 = n2 @ r5" "\<forall>c\<in>set n2. is_digit c" by simp_all
  from m6 have "\<exists>u. r5 = u @ r6
      \<and> (u = [] \<or> (\<exists>u1 u2. u = [u1, u2] \<and> (lower u = ''gy'' \<or> lower u = ''cc'')))"
    by (auto simp: re_optional_iff dest!: re_unit_D)
  then obtain u where u: "r5 = u @ r6"
      "u = [] \<or> (\<exists>u1 u2. u = [u1, u2] \<and> (lower u = ''gy'' \<or> lower u = ''cc''))"
    by blast
  have "nm = k # n1 @ opt_text dt @ n2 @ u @ r6"
    using r1 k(1) d1(1) dt(1) d2(1) u(1) by simp
  then show ?thesis
    using k(2) d1(2,3) dt(2) d2(2) u(2) m7 by blast
qed


lemma unit_facts:
  assumes "lower [u1, u2] = ''gy'' \<or> lower [u1, u2] = ''cc''"
  shows "\<not> is_space u1 \<and> \<not> is_digit u1 \<and> u1 \<noteq> CHR ''.'' \<and> \<not> is_space u2"
proof -
  from assms have "(lower_char u1 = CHR ''g'' \<and> lower_char u2 = CHR ''y'')
      \<or> (lower_char u1 = CHR ''c'' \<and> lower_char u2 = CHR ''c'')"
    by (simp add: lower_def)
  then show ?thesis
    by (auto dest!: letter_facts simp: is_space_def is_digit_def)
qed

lemma unit_text_facts:
  assumes "u = [] \<or> (\<exists>u1 u2. u = [u1, u2] \<and> (lower u = ''gy'' \<or> lower u = ''cc''))"
  shows "(\<forall>c\<in>set u. \<not> is_space c) \<and> dropWhile is_digit u = u
         \<and> (u = [] \<or> hd u \<noteq> CHR ''.'')"
proof (cases "u = []")
  case True
  then show ?thesis by simp
next
  case False
  then obtain u1 u2 where u: "u = [u1, u2]" "lower [u1, u2] = ''gy'' \<or> lower [u1, u2] = ''cc''"
    using assms by auto
  from unit_facts [OF u(2)] show ?thesis by (simp add: u(1))
qed

lemma metric_grammar_shape:
  assumes "lower_char k = CHR ''d'' \<or> lower_char k = CHR ''v''"
    and "d1 \<noteq> []" and "\<forall>c\<in>set d1. is_digit c"
    and "dt = [] \<or> dt = ''.''"
    and "\<forall>c\<in>set d2. is_digit c"
    and "u = [] \<or> (\<exists>u1 u2. u = [u1, u2] \<and> (lower u = ''gy'' \<or> lower u = ''cc''))"
  shows "metric_grammar (k # d1 @ dt @ d2 @ u)"
proof -
  define r where "r = d1 @ dt @ d2 @ u"
  define r1 where "r1 = dropWhile is_digit r"
  define r2 where "r2 = (case r1 of [] \<Rightarrow> [] | c # t \<Rightarrow> if c = CHR ''.'' then t else r1)"
  define r3 where "r3 = dropWhile is_digit r2"
  have g: "metric_grammar (k # r)
           \<longleftrightarrow> (lower_char k = CHR ''d'' \<or> lower_char k = CHR ''v'')
               \<and> takeWhile is_digit r \<noteq> []
               \<and> (r3 = [] \<or> lower r3 = ''gy'' \<or> lower r3 = ''cc'')"
    by (simp only: metric_grammar_def Let_def r1_def r2_def r3_def list.case)
  have nd: "\<not> is_digit CHR ''.''" by (simp add: is_digit_def)
  have u_drop: "dropWhile is_digit u = u" and u_dot: "u = [] \<or> hd u \<noteq> CHR ''.''"
    using unit_text_facts [OF assms(6)] by simp_all
  have t: "takeWhile is_digit r \<noteq> []"
    using assms(2,3) by (simp add: r_def takeWhile_append2)
  have a: "r1 = dropWhile is_digit (dt @ d2 @ u)"
    using assms(3) by (simp add: r1_def r_def dropWhile_append2)
  have d2u: "dropWhile is_digit (d2 @ u) = u"
    using assms(5) u_drop by (simp add: dropWhile_append2)
  have "r3 = u"
  proof (cases "dt = []")
    case True
    then have "r1 = u" using a d2u by simp
    then have "r2 = u" using u_dot unfolding r2_def by (cases u) auto
    then show ?thesis by (simp add: r3_def u_drop)
  next
    case False
    then have "dt = ''.''" using assms(4) by simp
    then have "r1 = CHR ''.'' # d2 @ u" using a nd by simp
    then have "r2 = d2 @ u" by (simp add: r2_def)
    then show ?thesis by (simp add: r3_def d2u)
  qed
  moreover have "u = [] \<or> lower u = ''gy'' \<or> lower u = ''cc''"
    using assms(6) by auto
  ultimately have "metric_grammar (k # r)"
    using g assms(1) t by simp
  then show ?thesis by (simp add: r_def)
qed

lemma first_token_shape:
  assumes "\<forall>c\<in>set tok. \<not> is_space c" and "re_lookahead r"
  shows "first_token (tok @ r) = tok"
proof -
  have "takeWhile (\<lambda>c. \<not> is_space c) r = []"
    using assms(2) by (cases r) (auto simp: re_lookahead_def)
  then show ?thesis
    using assms(1) by (simp add: first_token_def takeWhile_append2)
qed

lemma re_matches_None_grammar:
  assumes "(None, g2, g3, g4) \<in> set (re_matches nm)"
  shows "metric_grammar (first_token nm)"
proof -
  from re_matches_None_shape [OF assms] obtain k d1 dt d2 u r where
    nm: "nm = k # d1 @ dt @ d2 @ u @ r"
    and k: "lower_char k = CHR ''d'' \<or> lower_char k = CHR ''v''"
    and d1: "d1 \<noteq> []" "\<forall>c\<in>set d1. is_digit c"
    and dt: "dt = [] \<or> dt = ''.''"
    and d2: "\<forall>c\<in>set d2. is_digit c"
    and u: "u = [] \<or> (\<exists>u1 u2. u = [u1, u2] \<and> (lower u = ''gy'' \<or> lower u = ''cc''))"
    and r: "re_lookahead r"
    by blast
  have dot: "\<not> is_space CHR ''.''" by (simp add: is_space_def)
  have "\<forall>c\<in>set (k # d1 @ dt @ d2 @ u). \<not> is_space c"
    using DV_facts [OF k] d1(2) d2 dt unit_text_facts [OF u] dot
    by (auto dest: digit_not_space)
  from first_token_shape [OF this r] have "first_token nm = k # d1 @ dt @ d2 @ u"
    by (simp add: nm)
  then show ?thesis
    using metric_grammar_shape [OF k d1 dt d2 u] by simp
qed

lemma getattr_no_match:
  assumes "\<not> metric_grammar (first_token nm)"
  shows "getattr H nm = Inl (AttributeError (NoAttribute nm))"
proof (cases "re_matches nm")
  case Nil
  then show ?thesis by (simp add: getattr_def re_match_def)
next
  case (Cons m ms)
  obtain g1 g2 g3 g4 where m: "m = (g1, g2, g3, g4)" by (cases m) auto
  have "g1 \<noteq> None"
  proof
    assume "g1 = None"
    then have "(None, g2, g3, g4) \<in> set (re_matches nm)" using Cons m by simp
    from re_matches_None_grammar [OF this] assms show False by simp
  qed
  then show ?thesis using Cons m by (auto simp: getattr_def re_match_def)
qed


text \<open>In a name of the grammar the letter D or V stands in the first place only.\<close>

lemma metric_grammar_inner:
  assumes "metric_grammar (a # r)" and "c \<in> set r"
  shows "\<not> (lower_char c = CHR ''d'' \<or> lower_char c = CHR ''v'')"
proof
  assume dv: "lower_char c = CHR ''d'' \<or> lower_char c = CHR ''v''"
  define r1 where "r1 = dropWhile is_digit r"
  define r2 where "r2 = (case r1 of [] \<Rightarrow> [] | c # t \<Rightarrow> if c = CHR ''.'' then t else r1)"
  define r3 where "r3 = dropWhile is_digit r2"
  have "metric_grammar (a # r)
           \<longleftrightarrow> (lower_char a = CHR ''d'' \<or> lower_char a = CHR ''v'')
               \<and> takeWhile is_digit r \<noteq> []
               \<and> (r3 = [] \<or> lower r3 = ''gy'' \<or> lower r3 = ''cc'')"
    by (simp only: metric_grammar_def Let_def r1_def r2_def r3_def list.case)
  then have r3: "r3 = [] \<or> lower r3 = ''gy'' \<or> lower r3 = ''cc''"
    using assms(1) by simp
  have s1: "set r = set (takeWhile is_digit r) \<union> set r1"
    unfolding r1_def by (metis set_append takeWhile_dropWhile_id)
  have s2: "set r1 \<subseteq> {CHR ''.''} \<union> set r2"
    unfolding r2_def by (cases r1) auto
  have s3: "set r2 = set (takeWhile is_digit r2) \<union> set r3"
    unfolding r3_def by (metis set_append takeWhile_dropWhile_id)
  from assms(2) s1 s2 s3 have "is_digit c \<or> c = CHR ''.'' \<or> c \<in> set r3"
    by (auto dest: set_takeWhileD)
  moreover have "\<not> is_digit c" "c \<noteq> CHR ''.''" using DV_facts [OF dv] by simp_all
  ultimately have "c \<in> set r3" by simp
  then have "lower_char c \<in> set (lower r3)" and "r3 \<noteq> []" by (auto simp: lower_def)
  then show False using r3 dv by auto
qed

lemma getattr_prefix:
  assumes "p \<noteq> []" and "\<forall>c\<in>set p. \<not> is_space c" and "metric_grammar m"
  shows "getattr H (p @ m) = Inl (AttributeError (NoAttribute (p @ m)))"
proof (rule getattr_no_match)
  obtain k rest where m: "m = k # rest"
    and k: "lower_char k = CHR ''d'' \<or> lower_char k = CHR ''v''"
    using assms(3) by (cases m) (auto simp: metric_grammar_def)
  obtain a p' where p: "p = a # p'" using assms(1) by (cases p) auto
  have "\<not> is_space k" using DV_facts [OF k] by simp
  then have "first_token (p @ m) = a # p' @ k # takeWhile (\<lambda>c. \<not> is_space c) rest"
    using assms(2) by (simp add: first_token_def takeWhile_append2 m p)
  moreover have "\<not> metric_grammar (a # p' @ k # takeWhile (\<lambda>c. \<not> is_space c) rest)"
    using metric_grammar_inner [of a "p' @ k # takeWhile (\<lambda>c. \<not> is_space c) rest" k] k
    by auto
  ultimately show "\<not> metric_grammar (first_token (p @ m))" by simp
qed

text \<open>The last branch of \<open>relative_volume\<close>, for a histogram that is not differential.\<close>

lemma relative_volume_cumulative:
  "volume_units H \<noteq> relative_units \<Longrightarrow> dvh_type H \<noteq> ''differential'' \<Longrightarrow>
   relative_volume H = bindE (np_max (counts H)) (\<lambda>m.
             if m = 0 then Inl NonFinite
             else from_dict (H\<lparr>
                    counts := map (\<lambda>c. 100 * c / m) (counts H),
                    volume_units := relative_units\<rparr>))"
  by (subst relative_volume.simps) simp

lemma re_match_D90: "re_match ''D90'' = Some (None, ''D'', ''90'', None)"
  by code_simp

lemma re_match_V20Gy: "re_match ''V20Gy'' = Some (None, ''V'', ''20'', Some ''Gy'')"
  by code_simp

lemma re_match_D90_5: "re_match ''D90.5'' = Some (None, ''D'', ''90.5'', None)"
  by code_simp

lemma re_match_V10_5Gy: "re_match ''V10.5Gy'' = Some (None, ''V'', ''10.5'', Some ''Gy'')"
  by code_simp

lemma re_match_D90_x: "re_match ''D90 x'' = Some (None, ''D'', ''90'', None)"
  by code_simp

lemma py_int_90: "py_int ''90'' = Inr 90"
  by (simp add: py_int_def is_digit_def digit_val_def)

lemma py_int_20: "py_int ''20'' = Inr 20"
  by (simp add: py_int_def is_digit_def digit_val_def)

lemma py_int_decimal: "py_int ''90.5'' = Inl ValueError" "py_int ''10.5'' = Inl ValueError"
  by (simp_all add: py_int_def is_digit_def)

lemma getattr_D90:
  "getattr H ''D90'' = bindE (dose_constraint H 90 None) (\<lambda>v. Inr (Some v))"
  by (simp add: getattr_def re_match_D90 py_nth_def py_int_90 bindE_def lower_eval)

lemma getattr_D90_x:
  "getattr H ''D90 x'' = bindE (dose_constraint H 90 None) (\<lambda>v. Inr (Some v))"
  by (simp add: getattr_def re_match_D90_x py_nth_def py_int_90 bindE_def lower_eval)

lemma getattr_V20Gy:
  "getattr H ''V20Gy'' = bindE (volume_constraint H 20 (Some ''gy'')) (\<lambda>v. Inr (Some v))"
  by (simp add: getattr_def re_match_V20Gy py_nth_def py_int_20 bindE_def lower_eval)

text \<open>
  Claim C4, as amended. The name \<^verbatim>\<open>D90\<close> resolves to \<open>dose_constraint\<close> at 90 without a
  unit, which looks the volume up in the counts of the relative volume; \<^verbatim>\<open>V20Gy\<close>
  resolves to \<open>volume_constraint\<close> at 20 with the unit \<^verbatim>\<open>gy\<close>, which looks the dose up
  in the bins of the absolute dose. The pattern is matched at the start of the name and
  must be followed by white space or by the end of the name, so what decides is the name
  up to its first white space: every name whose first token is not of the grammar
  \<^verbatim>\<open>{D|V}{number}{unit?}\<close> fails with the error that names the attribute, and so does
  every name made of a prefix without white space and a name of the grammar, and so does
  \<^verbatim>\<open>foo\<close>.
\<close>

theorem C4_metric_names:
  "getattr H ''D90'' = bindE (dose_constraint H 90 None) (\<lambda>v. Inr (Some v))
   \<and> volume_counts H None = bindE (relative_volume H) (\<lambda>d. Inr (counts d))
   \<and> getattr H ''V20Gy'' = bindE (volume_constraint H 20 (Some ''gy'')) (\<lambda>v. Inr (Some v))
   \<and> dose_bins H (Some ''gy'')
       = bindE (absolute_dose H (Some 14) abs_dose_units) (\<lambda>d. Inr (bins d))
   \<and> (\<not> metric_grammar (first_token nm)
        \<longrightarrow> getattr H nm = Inl (AttributeError (NoAttribute nm)))
   \<and> (p \<noteq> [] \<and> list_all (\<lambda>c. \<not> is_space c) p \<and> metric_grammar m
        \<longrightarrow> getattr H (p @ m) = Inl (AttributeError (NoAttribute (p @ m))))
   \<and> getattr H ''foo'' = Inl (AttributeError (NoAttribute ''foo''))"
proof -
  have "\<not> metric_grammar (first_token ''foo'')"
    by (simp add: first_token_def is_space_def metric_grammar_def lower_char_def)
  then have "getattr H ''foo'' = Inl (AttributeError (NoAttribute ''foo''))"
    by (rule getattr_no_match)
  then show ?thesis
    using getattr_D90 getattr_V20Gy getattr_no_match getattr_prefix
    by (simp add: volume_counts_def dose_bins_def str_truthy_def list_all_iff)
qed

text \<open>
  The theorem at the histogram of the concrete scenario, the name \<^verbatim>\<open>dose 90\<close> and the
  prefix \<^verbatim>\<open>foo\<close> before \<^verbatim>\<open>D90\<close>.
\<close>

theorem C4_metric_names_witness:
  "getattr ex8 ''D90'' = Inr (Some \<lparr>val = 0, units = ''gy''\<rparr>)
   \<and> getattr ex8 ''V20Gy'' = Inr (Some \<lparr>val = 0, units = ''cm3''\<rparr>)
   \<and> \<not> metric_grammar (first_token ''dose 90'')
   \<and> getattr ex8 ''dose 90'' = Inl (AttributeError (NoAttribute ''dose 90''))
   \<and> ''foo'' \<noteq> [] \<and> list_all (\<lambda>c. \<not> is_space c) ''foo'' \<and> metric_grammar ''D90''
   \<and> getattr ex8 (''foo'' @ ''D90'') = Inl (AttributeError (NoAttribute (''foo'' @ ''D90'')))"
proof -
  have h: "\<not> metric_grammar (first_token ''dose 90'')" "''foo'' \<noteq> []"
    "list_all (\<lambda>c. \<not> is_space c) ''foo''" "metric_grammar ''D90''"
    by (simp_all add: first_token_def is_space_def is_digit_def metric_grammar_def
        lower_eval)
  have d: "dose_constraint ex8 90 None = Inr \<lparr>val = 0, units = ''gy''\<rparr>"
    by (simp add: dose_constraint_def volume_counts_def str_truthy_def bindE_def
        relative_volume_cumulative ex8_def units_defs np_max_def np_argmin_def py_nth_def
        from_dict_def DVH_init_def)
  have v: "volume_constraint ex8 20 (Some ''gy'') = Inr \<lparr>val = 0, units = ''cm3''\<rparr>"
    by (simp add: volume_constraint_def dose_bins_def str_truthy_def bindE_def
        absolute_dose_def ex8_def units_defs np_argmin_def)
  show ?thesis
    using h d v C4_metric_names [of ex8 "''dose 90''" "''foo''" "''D90''"]
    by (simp add: bindE_def)
qed

text \<open>
  Claim C4 as stated fails for a name that goes on after white space: \<^verbatim>\<open>D90 x\<close> is not
  of the grammar, and it resolves as \<^verbatim>\<open>D90\<close> does.
\<close>

theorem C4_metric_names_counterexample:
  "\<not> metric_grammar ''D90 x''
   \<and> getattr ex8 ''D90 x'' = Inr (Some \<lparr>val = 0, units = ''gy''\<rparr>)"
proof -
  have d: "dose_constraint ex8 90 None = Inr \<lparr>val = 0, units = ''gy''\<rparr>"
    by (simp add: dose_constraint_def volume_counts_def str_truthy_def bindE_def
        relative_volume_cumulative ex8_def units_defs np_max_def np_argmin_def py_nth_def
        from_dict_def DVH_init_def)
  have "\<not> metric_grammar ''D90 x''"
    by (auto simp: metric_grammar_def is_digit_def lower_eval)
  then show ?thesis by (simp add: getattr_D90_x d bindE_def)
qed

text \<open>
  Claim C5 does not hold of the source. The pattern accepts a decimal threshold, and the
  text of the threshold then goes to \<^verbatim>\<open>int\<close>, which raises \<^verbatim>\<open>ValueError\<close> on a text
  with a point: for every histogram the names \<^verbatim>\<open>D90.5\<close> and \<^verbatim>\<open>V10.5Gy\<close> match the
  pattern without a prefix, and resolving them fails with \<^verbatim>\<open>ValueError\<close>.
\<close>

theorem C5_decimal_threshold:
  "re_match ''D90.5'' = Some (None, ''D'', ''90.5'', None)
   \<and> py_int ''90.5'' = Inl ValueError
   \<and> getattr H ''D90.5'' = Inl ValueError
   \<and> re_match ''V10.5Gy'' = Some (None, ''V'', ''10.5'', Some ''Gy'')
   \<and> getattr H ''V10.5Gy'' = Inl ValueError"
  by (simp add: getattr_def re_match_D90_5 re_match_V10_5Gy py_nth_def py_int_decimal
      bindE_def lower_eval)

end
